theory Spec2Isabelle
  imports Main "HOL-Library.AList"
begin

section \<open>Python string primitives\<close>

text \<open>
  A Python string is modelled as the list of its code points, each below 256 (the Latin-1
  range), one \<^typ>\<open>char\<close> per code point. The predicates below are \<^verbatim>\<open>str.isspace\<close>,
  \<^verbatim>\<open>str.isdecimal\<close>, \<^verbatim>\<open>str.isdigit\<close>, \<^verbatim>\<open>str.isalpha\<close> and \<^verbatim>\<open>str.isalnum\<close> on that
  range. Whitespace is 0x09-0x0D, 0x1C-0x1F, the blank, U+0085 and U+00A0; \<^verbatim>\<open>strip\<close> and
  \<^verbatim>\<open>split\<close> use the same set. The digits of \<^verbatim>\<open>isdigit\<close> are the ten decimal digits and the
  superscripts U+00B2, U+00B3 and U+00B9; \<^verbatim>\<open>isalnum\<close> adds the three fractions
  U+00BC-U+00BE to the letters and digits.
\<close>

definition isspace :: "char \<Rightarrow> bool" where
  "isspace c = (c \<in> set [CHR 0x09, CHR 0x0A, CHR 0x0B, CHR 0x0C, CHR 0x0D,
                           CHR 0x1C, CHR 0x1D, CHR 0x1E, CHR 0x1F, CHR 0x20, CHR 0x85, CHR 0xA0])"

definition isdecimal :: "char \<Rightarrow> bool" where
  "isdecimal c = (c \<in> set ''0123456789'')"

definition isdigit :: "char \<Rightarrow> bool" where
  "isdigit c = (isdecimal c \<or> c \<in> set [CHR 0xB2, CHR 0xB3, CHR 0xB9])"

definition isalpha :: "char \<Rightarrow> bool" where
  "isalpha c =
     (let k = (of_char c :: nat)
      in (65 \<le> k \<and> k \<le> 90) \<or> (97 \<le> k \<and> k \<le> 122) \<or> k = 170 \<or> k = 181 \<or> k = 186 \<or>
         (192 \<le> k \<and> k \<le> 214) \<or> (216 \<le> k \<and> k \<le> 246) \<or> (248 \<le> k \<and> k \<le> 255))"

definition isalnum :: "char \<Rightarrow> bool" where
  "isalnum c = (isalpha c \<or> isdigit c \<or> c \<in> set [CHR 0xBC, CHR 0xBD, CHR 0xBE])"

definition lstrip :: "string \<Rightarrow> string" where
  "lstrip s = dropWhile isspace s"

definition rstrip :: "string \<Rightarrow> string" where
  "rstrip s = rev (dropWhile isspace (rev s))"

definition strip :: "string \<Rightarrow> string" where
  "strip s = lstrip (rstrip s)"

text \<open>\<^verbatim>\<open>s.rstrip(cs)\<close> and \<^verbatim>\<open>s.strip(cs)\<close> with an explicit character set.\<close>

definition rstrip_chars :: "string \<Rightarrow> string \<Rightarrow> string" where
  "rstrip_chars cs s = rev (dropWhile (\<lambda>c. c \<in> set cs) (rev s))"

definition strip_chars :: "string \<Rightarrow> string \<Rightarrow> string" where
  "strip_chars cs s = dropWhile (\<lambda>c. c \<in> set cs) (rstrip_chars cs s)"

fun startswith :: "string \<Rightarrow> string \<Rightarrow> bool" where
  "startswith s [] = True"
| "startswith [] (p # ps) = False"
| "startswith (c # cs) (p # ps) = (c = p \<and> startswith cs ps)"

text \<open>
  \<^verbatim>\<open>s.split()\<close>: the maximal runs of non-whitespace characters, in order. The first
  argument is the word being collected.
\<close>

fun split_from :: "string \<Rightarrow> string \<Rightarrow> string list" where
  "split_from w [] = (if w = [] then [] else [w])"
| "split_from w (c # cs) =
     (if isspace c then (if w = [] then split_from [] cs else w # split_from [] cs)
      else split_from (w @ [c]) cs)"

definition split_ws :: "string \<Rightarrow> string list" where
  "split_ws s = split_from [] s"

text \<open>
  \<^verbatim>\<open>s.splitlines()\<close>: lines end at LF, CR, CR LF, VT, FF, FS, GS, RS and NEL (U+0085);
  the line terminators are dropped and a terminator at the very end opens no further line.
\<close>

definition is_linebreak :: "char \<Rightarrow> bool" where
  "is_linebreak c =
     (c \<in> set [CHR 0x0A, CHR 0x0B, CHR 0x0C, CHR 0x0D, CHR 0x1C, CHR 0x1D, CHR 0x1E, CHR 0x85])"

fun splitlines_from :: "string \<Rightarrow> string \<Rightarrow> string list" where
  "splitlines_from cur [] = (if cur = [] then [] else [cur])"
| "splitlines_from cur (c # cs) =
     (if c = CHR 0x0D then
        (case cs of
           [] \<Rightarrow> [cur]
         | d # ds \<Rightarrow> if d = CHR 0x0A then cur # splitlines_from [] ds
                     else cur # splitlines_from [] cs)
      else if is_linebreak c then cur # splitlines_from [] cs
      else splitlines_from (cur @ [c]) cs)"

definition splitlines :: "string \<Rightarrow> string list" where
  "splitlines s = splitlines_from [] s"

text \<open>\<^verbatim>\<open>sep.join(xs)\<close>.\<close>

fun join :: "string \<Rightarrow> string list \<Rightarrow> string" where
  "join sep [] = []"
| "join sep [x] = x"
| "join sep (x # y # ys) = x @ sep @ join sep (y # ys)"

text \<open>\<^verbatim>\<open>str(n)\<close> for a natural number, as the f-strings render it.\<close>

fun str_nat :: "nat \<Rightarrow> string" where
  "str_nat n =
     (if n < 10 then [''0123456789'' ! n]
      else str_nat (n div 10) @ [''0123456789'' ! (n mod 10)])"

declare str_nat.simps [simp del]

section \<open>The line-oriented compiler (Linux and Windows variants)\<close>

text \<open>
  \<^verbatim>\<open>prrt_compiler_linux_v1.py\<close> and \<^verbatim>\<open>prrt_compiler_windows_v1.py\<close> share the class
  \<^verbatim>\<open>ParrotCompiler\<close>; the phases \<^verbatim>\<open>lex\<close>, \<^verbatim>\<open>parse\<close>, \<^verbatim>\<open>semantic_check\<close> and
  \<^verbatim>\<open>generate_ir\<close> are the same text in both files, only \<^verbatim>\<open>generate_asm\<close> differs.
  A node is the dictionary \<^verbatim>\<open>{"instr": instr, "args": args}\<close>. The two dictionaries
  \<^verbatim>\<open>labels\<close> and \<^verbatim>\<open>macros\<close> are association lists in insertion order, as Python
  dictionaries are.
\<close>

record node =
  instr :: string
  args :: "string list"

datatype error =
    IndexError
  | ValueError
  | KeyError
  | AttributeError
  | SyntaxError node

record compiler =
  source :: string
  tokens :: "string list"
  ast :: "node list"
  labels :: "(string \<times> nat) list"
  macros :: "(string \<times> node list) list"
  label_count :: nat
  asm_lines :: "string list"
  ir :: "node list"

definition ParrotCompiler :: compiler where
  "ParrotCompiler =
     \<lparr>source = [], tokens = [], ast = [], labels = [], macros = [],
      label_count = 0, asm_lines = [], ir = []\<rparr>"

subsection \<open>Phase 1: lex\<close>

text \<open>The method \<^verbatim>\<open>lex\<close>; the name \<open>lex\<close> is taken by a constant of the list library.\<close>

definition lex_phase :: "compiler \<Rightarrow> string \<Rightarrow> compiler" where
  "lex_phase c code =
     c\<lparr>source := code,
       tokens := map rstrip
         (filter (\<lambda>line. strip line \<noteq> [] \<and> \<not> startswith (strip line) '':>'')
                 (splitlines code))\<rparr>"

subsection \<open>Phase 2: parse\<close>

text \<open>
  The loop of \<^verbatim>\<open>parse\<close> keeps two locals besides the compiler object: the indent stack
  (a Python list, top at the end) and the current macro name. The local
  \<^verbatim>\<open>current_block\<close> is assigned but never read, so it is left out.
\<close>

record parse_state =
  indent_stack :: "nat list"
  current_macro :: "string option"
  self :: compiler

text \<open>
  \<^verbatim>\<open>while indent < indent_stack[-1]: indent_stack.pop()\<close>. Reading the top of an empty
  list raises IndexError.
\<close>

function pop_frames :: "nat \<Rightarrow> nat list \<Rightarrow> error + nat list" where
  "pop_frames indent stk =
     (if stk = [] then Inl IndexError
      else if indent < last stk then pop_frames indent (butlast stk)
      else Inr stk)"
  by pat_completeness auto
termination
  by (relation "measure (\<lambda>(indent, stk). length stk)") auto

declare pop_frames.simps [simp del]

text \<open>The block \<^verbatim>\<open>if instr == "perch"\<close> (lines 50-52).\<close>

definition record_label :: "compiler \<Rightarrow> string \<Rightarrow> string list \<Rightarrow> error + compiler" where
  "record_label c i as =
     (if i = ''perch'' then
        (case as of
           [] \<Rightarrow> Inl IndexError
         | a # _ \<Rightarrow> Inr (c\<lparr>labels := AList.update (rstrip_chars '':'' a) (length (ast c)) (labels c)\<rparr>))
      else Inr c)"

text \<open>The indentation block \<^verbatim>\<open>if indent > indent_stack[-1] ... elif ...\<close> (lines 56-62).\<close>

definition adjust_indent :: "nat \<Rightarrow> nat list \<Rightarrow> string option \<Rightarrow> error + nat list \<times> string option" where
  "adjust_indent indent stk cur =
     (if stk = [] then Inl IndexError
      else if indent > last stk then Inr (stk @ [indent], cur)
      else if indent < last stk then
        (case pop_frames indent stk of
           Inl e \<Rightarrow> Inl e
         | Inr stk' \<Rightarrow> Inr (stk', None))
      else Inr (stk, cur))"

text \<open>
  The emission block \<^verbatim>\<open>if current_macro and indent >= indent_stack[-1]\<close> (lines 64-67).
  A macro name that is the empty string is false in Python, as \<^verbatim>\<open>None\<close> is.
\<close>

definition emit_node :: "nat \<Rightarrow> nat list \<Rightarrow> string option \<Rightarrow> compiler \<Rightarrow> node \<Rightarrow> error + compiler" where
  "emit_node indent stk cur c n =
     (case cur of
        None \<Rightarrow> Inr (c\<lparr>ast := ast c @ [n]\<rparr>)
      | Some m \<Rightarrow>
          if m = [] then Inr (c\<lparr>ast := ast c @ [n]\<rparr>)
          else if stk = [] then Inl IndexError
          else if indent \<ge> last stk then
            (case map_of (macros c) m of
               None \<Rightarrow> Inl KeyError
             | Some body \<Rightarrow> Inr (c\<lparr>macros := AList.update m (body @ [n]) (macros c)\<rparr>))
          else Inr (c\<lparr>ast := ast c @ [n]\<rparr>))"

text \<open>\<^verbatim>\<open>indent = len(line) - len(line.lstrip())\<close> (line 36).\<close>

definition indent_width :: "string \<Rightarrow> nat" where
  "indent_width line = length line - length (lstrip line)"

text \<open>One iteration of the loop \<^verbatim>\<open>for line in self.tokens\<close>.\<close>

definition parse_line :: "parse_state \<Rightarrow> string \<Rightarrow> error + parse_state" where
  "parse_line ps line =
     (let indent = indent_width line;
          content = strip line;
          parts = split_ws content
      in case parts of
           [] \<Rightarrow> Inl IndexError
         | i # as \<Rightarrow>
             if i = ''chirp'' then
               (case as of
                  [] \<Rightarrow> Inl IndexError
                | a # _ \<Rightarrow>
                    let macro_name = rstrip_chars '':'' a
                    in Inr (ps\<lparr>indent_stack := indent_stack ps @ [indent],
                               current_macro := Some macro_name,
                               self := (self ps)\<lparr>macros := AList.update macro_name [] (macros (self ps))\<rparr>\<rparr>))
             else
               (case record_label (self ps) i as of
                  Inl e \<Rightarrow> Inl e
                | Inr c1 \<Rightarrow>
                    (case adjust_indent indent (indent_stack ps) (current_macro ps) of
                       Inl e \<Rightarrow> Inl e
                     | Inr (stk, cur) \<Rightarrow>
                         (case emit_node indent stk cur c1 \<lparr>instr = i, args = as\<rparr> of
                            Inl e \<Rightarrow> Inl e
                          | Inr c2 \<Rightarrow> Inr \<lparr>indent_stack = stk, current_macro = cur, self = c2\<rparr>))))"

fun parse_lines :: "parse_state \<Rightarrow> string list \<Rightarrow> error + parse_state" where
  "parse_lines ps [] = Inr ps"
| "parse_lines ps (l # ls) =
     (case parse_line ps l of
        Inl e \<Rightarrow> Inl e
      | Inr ps' \<Rightarrow> parse_lines ps' ls)"

definition parse_init :: "compiler \<Rightarrow> parse_state" where
  "parse_init c = \<lparr>indent_stack = [0], current_macro = None, self = c\<lparr>ast := []\<rparr>\<rparr>"

definition parse :: "compiler \<Rightarrow> error + compiler" where
  "parse c =
     (case parse_lines (parse_init c) (tokens c) of
        Inl e \<Rightarrow> Inl e
      | Inr ps \<Rightarrow> Inr (self ps))"

subsection \<open>Phase 3: semantic check\<close>

fun check_nodes :: "node list \<Rightarrow> error + unit" where
  "check_nodes [] = Inr ()"
| "check_nodes (n # ns) =
     (if instr n = ''flyto'' \<and> args n = [] then Inl (SyntaxError n)
      else check_nodes ns)"

definition semantic_check :: "compiler \<Rightarrow> error + compiler" where
  "semantic_check c =
     (case check_nodes (ast c) of
        Inl e \<Rightarrow> Inl e
      | Inr _ \<Rightarrow> Inr c)"

subsection \<open>Phase 4: IR generation\<close>

text \<open>
  The loop \<^verbatim>\<open>for node in self.ast\<close> of \<^verbatim>\<open>generate_ir\<close>; the second argument is
  \<^verbatim>\<open>self.ir\<close> as built so far.
\<close>

fun expand :: "(string \<times> node list) list \<Rightarrow> node list \<Rightarrow> node list \<Rightarrow> node list" where
  "expand ms acc [] = acc"
| "expand ms acc (n # ns) =
     (case map_of ms (instr n) of
        Some body \<Rightarrow> expand ms (acc @ body) ns
      | None \<Rightarrow> expand ms (acc @ [n]) ns)"

definition generate_ir :: "compiler \<Rightarrow> compiler" where
  "generate_ir c = c\<lparr>ir := expand (macros c) [] (ast c)\<rparr>"

subsection \<open>Phase 5: optimisation\<close>

definition optimize :: "compiler \<Rightarrow> compiler" where
  "optimize c = c"

subsection \<open>Phase 6: target code generation\<close>

text \<open>\<^verbatim>\<open>xs.insert(k, x)\<close>: an index beyond the end appends.\<close>

definition insert_at :: "nat \<Rightarrow> 'a \<Rightarrow> 'a list \<Rightarrow> 'a list" where
  "insert_at k x xs = take k xs @ [x] @ drop k xs"

text \<open>\<^verbatim>\<open>self.asm_lines.append(l)\<close> and \<^verbatim>\<open>self.asm_lines += ls\<close>.\<close>

definition emit_lines :: "compiler \<Rightarrow> string list \<Rightarrow> compiler" where
  "emit_lines c ls = c\<lparr>asm_lines := asm_lines c @ ls\<rparr>"

text \<open>The operand rewriting and the operator table of the \<^verbatim>\<open>flap\<close> branch, the same in both backends.\<close>

definition flap_left :: "string \<Rightarrow> string" where
  "flap_left l = (if l = ''bowl'' then ''byte [rsi]'' else l)"

definition flap_right :: "string \<Rightarrow> string" where
  "flap_right r = (if r = ''empty'' then ''0'' else if r = ''bowl'' then ''byte [rsi]'' else r)"

definition jmp_op :: "(string \<times> string) list" where
  "jmp_op = [(''=='', ''je''), (''!='', ''jne''), (''>'', ''jg''), (''<'', ''jl''),
             (''>='', ''jge''), (''<='', ''jle'')]"

definition emit_flap :: "compiler \<Rightarrow> string list \<Rightarrow> error + compiler" where
  "emit_flap c as =
     (case as of
        [label, left, op, right] \<Rightarrow>
          (case map_of jmp_op op of
             None \<Rightarrow> Inl KeyError
           | Some j \<Rightarrow>
               Inr (emit_lines c
                 [''    movzx rax, '' @ flap_left left,
                  ''    cmp rax, '' @ flap_right right,
                  ''    '' @ j @ '' .'' @ label]))
      | _ \<Rightarrow> Inl ValueError)"

text \<open>The \<^verbatim>\<open>add\<close> and \<^verbatim>\<open>sub\<close> branches; \<open>m\<close> is the mnemonic.\<close>

definition emit_arith :: "string \<Rightarrow> compiler \<Rightarrow> string list \<Rightarrow> error + compiler" where
  "emit_arith m c as =
     (case as of
        [dest, val] \<Rightarrow>
          Inr (if dest = ''bowl'' then emit_lines c [''    '' @ m @ '' byte [rsi], '' @ val] else c)
      | _ \<Rightarrow> Inl ValueError)"

text \<open>The string constant line of the \<^verbatim>\<open>mimic\<close> branch.\<close>

definition mimic_label :: "compiler \<Rightarrow> string" where
  "mimic_label c = ''str_'' @ str_nat (label_count c)"

definition mimic_string :: "string list \<Rightarrow> string" where
  "mimic_string as = strip_chars [CHR 0x22] (join '' '' as)"

definition mimic_constant :: "compiler \<Rightarrow> string list \<Rightarrow> string" where
  "mimic_constant c as = mimic_label c @ '' db '' @ [CHR 0x22] @ mimic_string as @ [CHR 0x22] @ '', 10, 0''"

text \<open>One iteration of the loop \<^verbatim>\<open>for node in self.ir\<close> of the Linux \<^verbatim>\<open>generate_asm\<close>.\<close>

definition emit_linux :: "compiler \<Rightarrow> node \<Rightarrow> error + compiler" where
  "emit_linux c n =
     (if instr n = ''peck'' then Inr (emit_lines c [''    inc byte [rsi]''])
      else if instr n = ''scratch'' then Inr (emit_lines c [''    dec byte [rsi]''])
      else if instr n = ''hop'' then Inr (emit_lines c [''    inc rsi''])
      else if instr n = ''hopback'' then Inr (emit_lines c [''    dec rsi''])
      else if instr n = ''squawk'' then
        Inr (emit_lines c
          [''    mov rax, 1'', ''    mov rdi, 1'', ''    mov rdx, 1'', ''    mov rsi, rsi'', ''    syscall''])
      else if instr n = ''mimic'' then
        Inr ((emit_lines (c\<lparr>asm_lines := insert_at 1 (mimic_constant c (args n)) (asm_lines c)\<rparr>)
               [''    mov rax, 1'', ''    mov rdi, 1'', ''    mov rsi, '' @ mimic_label c,
                ''    mov rdx, '' @ str_nat (length (mimic_string (args n)) + 1), ''    syscall''])
             \<lparr>label_count := label_count c + 1\<rparr>)
      else if instr n = ''gulp'' then
        Inr (emit_lines c
          [''    mov rax, 0'', ''    mov rdi, 0'', ''    mov rsi, rsi'', ''    mov rdx, 1'', ''    syscall''])
      else if instr n = ''devour'' then
        Inr (emit_lines c
          [''    mov rax, 0'', ''    mov rdi, 0'', ''    mov rsi, rsi'', ''    mov rdx, 128'', ''    syscall''])
      else if instr n = ''regurgitate'' then
        Inr (emit_lines c
          [''.reg_loop:'', ''    mov al, [rsi]'', ''    cmp al, 0'', ''    je .reg_end'',
           ''    mov rax, 1'', ''    mov rdi, 1'', ''    mov rdx, 1'', ''    syscall'',
           ''    inc rsi'', ''    jmp .reg_loop'', ''.reg_end:''])
      else if instr n = ''flyto'' then
        (case args n of [] \<Rightarrow> Inl IndexError | a # _ \<Rightarrow> Inr (emit_lines c [''    jmp .'' @ a]))
      else if instr n = ''perch'' then
        (case args n of [] \<Rightarrow> Inl IndexError | a # _ \<Rightarrow> Inr (emit_lines c [''.'' @ a @ '':'']))
      else if instr n = ''flap'' then emit_flap c (args n)
      else if instr n = ''add'' then emit_arith ''add'' c (args n)
      else if instr n = ''sub'' then emit_arith ''sub'' c (args n)
      else if instr n = ''bob'' then
        (case args n of
           [] \<Rightarrow> Inl IndexError
         | a # _ \<Rightarrow> Inr (emit_lines c [''    mov rcx, '' @ a @ '' ; bob head delay placeholder'']))
      else if instr n = ''preen'' then Inr (emit_lines c [''    mov rsi, tape''])
      else if instr n = ''poop'' then Inr (emit_lines c [''    mov byte [rsi], 0''])
      else if instr n = ''perish'' then
        Inr (emit_lines c [''    mov rax, 60'', ''    xor rdi, rdi'', ''    syscall''])
      else Inr c)"

text \<open>The same loop body in the Windows \<^verbatim>\<open>generate_asm\<close>.\<close>

definition emit_windows :: "compiler \<Rightarrow> node \<Rightarrow> error + compiler" where
  "emit_windows c n =
     (if instr n = ''peck'' then Inr (emit_lines c [''    inc byte [rsi]''])
      else if instr n = ''scratch'' then Inr (emit_lines c [''    dec byte [rsi]''])
      else if instr n = ''hop'' then Inr (emit_lines c [''    inc rsi''])
      else if instr n = ''hopback'' then Inr (emit_lines c [''    dec rsi''])
      else if instr n = ''squawk'' then
        Inr (emit_lines c
          [''    movzx rcx, byte [rsi]'', ''    lea rdx, [fmt_out]'', ''    call printf''])
      else if instr n = ''mimic'' then
        Inr ((emit_lines (c\<lparr>asm_lines := insert_at 4 (mimic_constant c (args n)) (asm_lines c)\<rparr>)
               [''    lea rcx, ['' @ mimic_label c @ '']'', ''    call printf''])
             \<lparr>label_count := label_count c + 1\<rparr>)
      else if instr n = ''gulp'' then
        Inr (emit_lines c [''    lea rdx, [fmt_in]'', ''    mov rcx, rsi'', ''    call scanf''])
      else if instr n = ''devour'' then
        Inr (emit_lines c
          [''    ; simplified devour -> scanf'', ''    lea rdx, [fmt_in]'', ''    mov rcx, rsi'',
           ''    call scanf''])
      else if instr n = ''regurgitate'' then
        Inr (emit_lines c
          [''reg_loop:'', ''    mov al, [rsi]'', ''    cmp al, 0'', ''    je reg_end'',
           ''    movzx rcx, al'', ''    lea rdx, [fmt_out]'', ''    call printf'',
           ''    inc rsi'', ''    jmp reg_loop'', ''reg_end:''])
      else if instr n = ''flyto'' then
        (case args n of [] \<Rightarrow> Inl IndexError | a # _ \<Rightarrow> Inr (emit_lines c [''    jmp .'' @ a]))
      else if instr n = ''perch'' then
        (case args n of [] \<Rightarrow> Inl IndexError | a # _ \<Rightarrow> Inr (emit_lines c [''.'' @ a @ '':'']))
      else if instr n = ''flap'' then emit_flap c (args n)
      else if instr n = ''add'' then emit_arith ''add'' c (args n)
      else if instr n = ''sub'' then emit_arith ''sub'' c (args n)
      else if instr n = ''bob'' then
        (case args n of
           [] \<Rightarrow> Inl IndexError
         | a # _ \<Rightarrow> Inr (emit_lines c [''    ; bob pause placeholder: '' @ a @ '' seconds'']))
      else if instr n = ''preen'' then Inr (emit_lines c [''    mov rsi, tape''])
      else if instr n = ''poop'' then Inr (emit_lines c [''    mov byte [rsi], 0''])
      else if instr n = ''perish'' then
        Inr (emit_lines c [''    xor rcx, rcx'', ''    call ExitProcess''])
      else Inr c)"


text \<open>The loop \<^verbatim>\<open>for node in self.ir\<close>; an exception ends it.\<close>

fun emit_all :: "(compiler \<Rightarrow> node \<Rightarrow> error + compiler) \<Rightarrow> compiler \<Rightarrow> node list \<Rightarrow> error + compiler" where
  "emit_all f c [] = Inr c"
| "emit_all f c (n # ns) =
     (case f c n of
        Inl e \<Rightarrow> Inl e
      | Inr c' \<Rightarrow> emit_all f c' ns)"

definition linux_header :: "string list" where
  "linux_header =
     [''section .data'', ''newline db 10, 0'', ''input_prompt db 'Feed the birb: ', 0'',
      ''input_buffer resb 128'', ''section .bss'', ''tape resb 30000'', ''section .text'',
      ''global _start'', ''_start:'', ''    mov rsi, tape'']"

definition windows_header :: "string list" where
  "windows_header =
     [''extern ExitProcess'', ''extern printf'', ''extern scanf'', ''section .data'',
      ''newline db 10, 0'', ''fmt_in db '' @ [CHR 0x22] @ ''%c'' @ [CHR 0x22] @ '', 0'',
      ''fmt_out db '' @ [CHR 0x22] @ ''%c'' @ [CHR 0x22] @ '', 0'',
      ''input_buffer db 128 dup(0)'', ''section .bss'', ''tape resb 30000'', ''section .text'',
      ''global main'', ''main:'', ''    mov rsi, tape'']"

text \<open>
  \<^verbatim>\<open>generate_asm\<close> returns the compiler object and the text it writes to the output file,
  \<^verbatim>\<open>"\n".join(self.asm_lines)\<close>.
\<close>

definition generate_asm_linux :: "compiler \<Rightarrow> error + compiler \<times> string" where
  "generate_asm_linux c =
     (case emit_all emit_linux (c\<lparr>asm_lines := linux_header\<rparr>) (ir c) of
        Inl e \<Rightarrow> Inl e
      | Inr c' \<Rightarrow> Inr (c', join [CHR 0x0A] (asm_lines c')))"

definition generate_asm_windows :: "compiler \<Rightarrow> error + compiler \<times> string" where
  "generate_asm_windows c =
     (case emit_all emit_windows (c\<lparr>asm_lines := windows_header\<rparr>) (ir c) of
        Inl e \<Rightarrow> Inl e
      | Inr c' \<Rightarrow> Inr (c', join [CHR 0x0A] (asm_lines c')))"

subsection \<open>Entry point\<close>

text \<open>
  The calls of the \<^verbatim>\<open>__main__\<close> block on a compiler object: \<^verbatim>\<open>lex\<close>, \<^verbatim>\<open>parse\<close>,
  \<^verbatim>\<open>semantic_check\<close>, \<^verbatim>\<open>generate_ir\<close> (the front end), then \<^verbatim>\<open>optimize\<close> and
  \<^verbatim>\<open>generate_asm\<close>. The entry point runs them on a fresh \<^verbatim>\<open>ParrotCompiler()\<close>.
\<close>

definition front_end :: "compiler \<Rightarrow> string \<Rightarrow> error + compiler" where
  "front_end c code =
     (case parse (lex_phase c code) of
        Inl e \<Rightarrow> Inl e
      | Inr c1 \<Rightarrow>
          (case semantic_check c1 of
             Inl e \<Rightarrow> Inl e
           | Inr c2 \<Rightarrow> Inr (generate_ir c2)))"

definition pipeline_linux :: "compiler \<Rightarrow> string \<Rightarrow> error + compiler \<times> string" where
  "pipeline_linux c code =
     (case front_end c code of
        Inl e \<Rightarrow> Inl e
      | Inr c1 \<Rightarrow> generate_asm_linux (optimize c1))"

definition pipeline_windows :: "compiler \<Rightarrow> string \<Rightarrow> error + compiler \<times> string" where
  "pipeline_windows c code =
     (case front_end c code of
        Inl e \<Rightarrow> Inl e
      | Inr c1 \<Rightarrow> generate_asm_windows (optimize c1))"

definition main_linux :: "string \<Rightarrow> error + string" where
  "main_linux code = map_sum id snd (pipeline_linux ParrotCompiler code)"

definition main_windows :: "string \<Rightarrow> error + string" where
  "main_windows code = map_sum id snd (pipeline_windows ParrotCompiler code)"

section \<open>The token-oriented compiler\<close>

text \<open>The classes \<^verbatim>\<open>ParrotLexer\<close> and \<^verbatim>\<open>ParrotParser\<close> of \<^verbatim>\<open>parrot_compiler.py\<close>.\<close>

subsection \<open>More string primitives\<close>

text \<open>\<^verbatim>\<open>s.split(d)\<close> with a one-character separator: every occurrence splits, empty fields stay.\<close>

fun split_on_from :: "char \<Rightarrow> string \<Rightarrow> string \<Rightarrow> string list" where
  "split_on_from d cur [] = [cur]"
| "split_on_from d cur (c # cs) =
     (if c = d then cur # split_on_from d [] cs else split_on_from d (cur @ [c]) cs)"

definition split_on :: "char \<Rightarrow> string \<Rightarrow> string list" where
  "split_on d s = split_on_from d [] s"

text \<open>\<^verbatim>\<open>sub in s\<close> and \<^verbatim>\<open>s.endswith(e)\<close>.\<close>

fun contains :: "string \<Rightarrow> string \<Rightarrow> bool" where
  "contains sub [] = (sub = [])"
| "contains sub (c # cs) = (startswith (c # cs) sub \<or> contains sub cs)"

definition endswith :: "string \<Rightarrow> string \<Rightarrow> bool" where
  "endswith s e = startswith (rev s) (rev e)"

text \<open>
  \<^verbatim>\<open>int(s)\<close> in base 10: whitespace around the number is dropped, one sign may lead, and the
  digits are decimal digits in groups separated by single underscores. Anything else raises
  ValueError, which is \<open>None\<close> here.
\<close>

definition int_of_decimals :: "string \<Rightarrow> int" where
  "int_of_decimals s = foldl (\<lambda>a c. 10 * a + int (of_char c - 48)) 0 s"

definition int_unsigned :: "string \<Rightarrow> int option" where
  "int_unsigned s =
     (if \<forall>g \<in> set (split_on (CHR ''_'') s). g \<noteq> [] \<and> (\<forall>c \<in> set g. isdecimal c)
      then Some (int_of_decimals (concat (split_on (CHR ''_'') s)))
      else None)"

definition py_int :: "string \<Rightarrow> int option" where
  "py_int s =
     (case strip s of
        [] \<Rightarrow> None
      | c # cs \<Rightarrow>
          if c = CHR ''-'' then map_option uminus (int_unsigned cs)
          else if c = CHR ''+'' then int_unsigned cs
          else int_unsigned (c # cs))"

subsection \<open>Tokens\<close>

datatype TokenType =
    COMMENT | PECK | SCRATCH | HOP | HOPBACK | GULP | SQUAWK | STOMACH | DEVOUR
  | REGURGITATE | BOWL | MIMIC | PREEN | POOP | PERCH | CHIRP | FLYTO | FLAP | ADD | SUB
  | MUL | DIV | BOB | PERISH | IDENTIFIER | STRING | NUMBER | OPERATOR | EMPTY | INTO
  | CELL_REF

text \<open>The value of a token and the operands of a statement are Python strings or integers.\<close>

datatype pyval = PyStr string | PyInt int

text \<open>
  The class \<^verbatim>\<open>Token\<close>. The attribute \<^verbatim>\<open>indentation\<close> is set on the first token of a line
  only; \<open>None\<close> is a token without it.
\<close>

record token =
  tok_type :: TokenType
  tok_value :: pyval
  line_number :: nat
  indentation :: "nat option"

definition Token :: "TokenType \<Rightarrow> pyval \<Rightarrow> nat \<Rightarrow> token" where
  "Token t v n = \<lparr>tok_type = t, tok_value = v, line_number = n, indentation = None\<rparr>"

text \<open>
  The two ways the token-oriented compiler stops: \<^verbatim>\<open>print(message); sys.exit(1)\<close>, with the
  message printed, and an exception nothing catches.
\<close>

datatype abort = Exit string | Raise error

subsection \<open>ParrotLexer\<close>

definition lexer_keywords :: "(string \<times> TokenType) list" where
  "lexer_keywords =
     [(''peck'', PECK), (''scratch'', SCRATCH), (''hop'', HOP), (''hopback'', HOPBACK),
      (''gulp'', GULP), (''squawk'', SQUAWK), (''stomach'', STOMACH), (''devour'', DEVOUR),
      (''regurgitate'', REGURGITATE), (''bowl'', BOWL), (''mimic'', MIMIC), (''preen'', PREEN),
      (''poop'', POOP), (''perch'', PERCH), (''chirp'', CHIRP), (''flyto'', FLYTO),
      (''flap'', FLAP), (''add'', ADD), (''sub'', SUB), (''mul'', MUL), (''div'', DIV),
      (''bob'', BOB), (''perish'', PERISH), (''into'', INTO), (''empty'', EMPTY)]"

definition lexer_operators :: "(string \<times> string) list" where
  "lexer_operators =
     [(''>'', ''>''), (''<'', ''<''), (''='', ''==''), (''=='', ''==''), (''!='', ''!=''),
      (''>='', ''>=''), (''<='', ''<='')]"

text \<open>
  The inner loop of the string branch (lines 149-153), started behind the opening quote. The
  first argument is the text read so far, backslashes included; the result is that text and
  what follows the closing quote, or \<open>None\<close> when the line ends first.
\<close>

fun scan_string :: "string \<Rightarrow> string \<Rightarrow> (string \<times> string) option" where
  "scan_string acc [] = None"
| "scan_string acc (c # cs) =
     (if c = CHR 0x22 then Some (acc, cs)
      else if c = CHR 0x5C then
        (case cs of
           [] \<Rightarrow> scan_string (acc @ [c]) []
         | d # ds \<Rightarrow> scan_string (acc @ [c, d]) ds)
      else scan_string (acc @ [c]) cs)"

lemma scan_string_length:
  "scan_string acc cs = Some (s, rest) \<Longrightarrow> length rest < Suc (length cs)"
proof (induction acc cs rule: scan_string.induct)
  case (1 acc)
  then show ?case by simp
next
  case (2 acc c cs)
  then show ?case
    by (cases cs) (auto split: if_splits)
qed

text \<open>The characters an identifier goes on with (line 175).\<close>

definition word_char :: "char \<Rightarrow> bool" where
  "word_char c = (isalnum c \<or> c = CHR ''_'' \<or> c = CHR ''#'')"

text \<open>
  The operator branch reads one character and a following \<^verbatim>\<open>=\<close> (lines 196-200): the text
  of the operator and what follows it.
\<close>

definition operator_text :: "char \<Rightarrow> string \<Rightarrow> string \<times> string" where
  "operator_text c cs =
     (case cs of
        [] \<Rightarrow> ([c], cs)
      | d # ds \<Rightarrow> if d = CHR ''='' then ([c, d], ds) else ([c], cs))"

lemma operator_text_length: "operator_text c cs = (optext, rest) \<Longrightarrow> length rest < Suc (length cs)"
  by (auto simp: operator_text_def split: list.splits if_splits)

text \<open>
  The loop \<^verbatim>\<open>while i < len(line)\<close> of \<^verbatim>\<open>tokenize\<close> (lines 137-215) on the rest of the line
  from position \<^verbatim>\<open>i\<close> on; \<open>n\<close> is the line number and \<open>toks\<close> is \<^verbatim>\<open>line_tokens\<close>. The
  conversion \<^verbatim>\<open>int(line[start:i])\<close> of the number branch stands outside any \<^verbatim>\<open>try\<close>.
\<close>

function scan :: "nat \<Rightarrow> string \<Rightarrow> token list \<Rightarrow> abort + token list" where
  "scan n [] toks = Inr toks"
| "scan n (c # cs) toks =
     (if isspace c then scan n cs toks
      else if c = CHR 0x22 then
        (case scan_string [] cs of
           None \<Rightarrow> Inl (Exit (''Error: Unclosed string literal at line '' @ str_nat n))
         | Some (s, rest) \<Rightarrow> scan n rest (toks @ [Token STRING (PyStr s) n]))
      else if isdigit c then
        (case py_int (c # takeWhile isdigit cs) of
           None \<Rightarrow> Inl (Raise ValueError)
         | Some v \<Rightarrow> scan n (dropWhile isdigit cs) (toks @ [Token NUMBER (PyInt v) n]))
      else if isalpha c \<or> c = CHR ''_'' \<or> c = CHR ''#'' then
        (if c = CHR ''#'' then
           (case py_int (takeWhile word_char cs) of
              None \<Rightarrow> Inl (Exit (''Error: Invalid cell reference '' @ [CHR 0x27] @ (c # takeWhile word_char cs)
                                   @ [CHR 0x27] @ '' at line '' @ str_nat n))
            | Some v \<Rightarrow> scan n (dropWhile word_char cs) (toks @ [Token CELL_REF (PyInt v) n]))
         else
           (case map_of lexer_keywords (c # takeWhile word_char cs) of
              Some t \<Rightarrow> scan n (dropWhile word_char cs)
                          (toks @ [Token t (PyStr (c # takeWhile word_char cs)) n])
            | None \<Rightarrow> scan n (dropWhile word_char cs)
                        (toks @ [Token IDENTIFIER (PyStr (c # takeWhile word_char cs)) n])))
      else if c \<in> set ''<>=!'' then
        (case operator_text c cs of
           (optext, rest) \<Rightarrow>
             (case map_of lexer_operators optext of
                Some v \<Rightarrow> scan n rest (toks @ [Token OPERATOR (PyStr v) n])
              | None \<Rightarrow> Inl (Exit (''Error: Invalid operator '' @ [CHR 0x27] @ optext @ [CHR 0x27] @ '' at line ''
                                   @ str_nat n))))
      else if c = CHR '':'' then scan n cs (toks @ [Token IDENTIFIER (PyStr '':'') n])
      else scan n cs toks)"
  by pat_completeness auto
termination
proof (relation "measure (\<lambda>(n, s, toks). length s)")
  show "wf (measure (\<lambda>(n, s, toks). length s))" by simp
next
  fix n :: nat and c :: char and cs :: string and toks :: "token list" and x2 x y
  assume "scan_string [] cs = Some x2" and "(x, y) = x2"
  then show "((n, y, toks @ [Token STRING (PyStr x) n]), n, c # cs, toks)
      \<in> measure (\<lambda>(n, s, toks). length s)"
    using scan_string_length [of "[]" cs x y] by simp
next
  fix n :: nat and c :: char and cs :: string and toks :: "token list" and x y
  assume "(x, y) = operator_text c cs"
  then show "\<And>v. ((n, y, toks @ [Token OPERATOR (PyStr v) n]), n, c # cs, toks)
      \<in> measure (\<lambda>(n, s, toks). length s)"
    using operator_text_length [of c cs x y] by simp
qed (simp_all add: length_dropWhile_le less_Suc_eq_le)

declare scan.simps [simp del]

text \<open>\<^verbatim>\<open>line_tokens[0].indentation = indentation // 4\<close>, when there is a first token.\<close>

definition set_indentation :: "nat \<Rightarrow> token list \<Rightarrow> token list" where
  "set_indentation k toks =
     (case toks of
        [] \<Rightarrow> []
      | t # ts \<Rightarrow> t\<lparr>indentation := Some k\<rparr> # ts)"

text \<open>
  The loop \<^verbatim>\<open>for line_num, line in enumerate(lines, 1)\<close>; \<open>mc\<close> is the flag
  \<^verbatim>\<open>multiline_comment\<close> and \<open>toks\<close> the list \<^verbatim>\<open>tokens\<close>.
\<close>

fun tokenize_lines :: "nat \<Rightarrow> bool \<Rightarrow> string list \<Rightarrow> token list \<Rightarrow> abort + token list" where
  "tokenize_lines n mc [] toks = Inr toks"
| "tokenize_lines n mc (line # ls) toks =
     (if strip line = [] then tokenize_lines (Suc n) mc ls toks
      else if mc then tokenize_lines (Suc n) (\<not> contains '':)'' line) ls toks
      else if contains ''(:'' line \<and> \<not> contains '':)'' line then tokenize_lines (Suc n) True ls toks
      else if startswith (strip line) '':>'' then tokenize_lines (Suc n) mc ls toks
      else
        (case scan n (drop (indent_width line) line) [] of
           Inl e \<Rightarrow> Inl e
         | Inr line_tokens \<Rightarrow>
             tokenize_lines (Suc n) mc ls (toks @ set_indentation (indent_width line div 4) line_tokens)))"

definition tokenize :: "string \<Rightarrow> abort + token list" where
  "tokenize code = tokenize_lines 1 False (split_on (CHR 0x0A) code) []"

subsection \<open>ParrotParser\<close>

text \<open>
  A statement is the dictionary \<^verbatim>\<open>parse_statement\<close> returns, one constructor for each value
  of its \<^verbatim>\<open>"type"\<close> entry; an operand that is \<^verbatim>\<open>None\<close> in the dictionary is \<open>None\<close> here.
  \<open>Add\<close> and \<open>Sub\<close> carry \<^verbatim>\<open>left\<close>, \<^verbatim>\<open>right\<close>, \<^verbatim>\<open>left_is_cell\<close> and \<^verbatim>\<open>right_is_cell\<close>.
\<close>

datatype stmt =
    Peck | Scratch | Hop | Hopback
  | Gulp "pyval list"
  | Squawk
  | Stomach "pyval option" "pyval option"
  | Devour "pyval option" "pyval option"
  | Regurgitate "pyval option"
  | Mimic "pyval option"
  | Preen | Poop
  | Perch "pyval option"
  | Flyto "pyval option"
  | Flap "pyval option" "pyval option" "pyval option" "pyval option"
  | Add "pyval option" "pyval option" bool bool
  | Sub "pyval option" "pyval option" bool bool
  | Mul | Div
  | Bob "pyval option"
  | Perish
  | Chirp_call pyval

text \<open>
  The tables of the parser object. Its token list and position are the list of tokens not
  yet consumed, which the functions below pass on; \<^verbatim>\<open>self.indent_stack\<close> is never used.
\<close>

record parser =
  parser_labels :: "pyval set"
  chirps :: "(pyval \<times> token list) list"
  stomachs :: "(pyval \<times> pyval option) list"

definition ParrotParser :: parser where
  "ParrotParser = \<lparr>parser_labels = {}, chirps = [], stomachs = []\<rparr>"

text \<open>\<^verbatim>\<open>if name.endswith(':'): name = name[:-1]\<close>; an integer has no such method.\<close>

definition drop_colon :: "pyval \<Rightarrow> abort + pyval" where
  "drop_colon v =
     (case v of
        PyInt _ \<Rightarrow> Inl (Raise AttributeError)
      | PyStr s \<Rightarrow> Inr (PyStr (if endswith s '':'' then butlast s else s)))"

text \<open>The truth value of a string or integer in a condition.\<close>

definition truthy :: "pyval \<Rightarrow> bool" where
  "truthy v = (case v of PyStr s \<Rightarrow> s \<noteq> [] | PyInt k \<Rightarrow> k \<noteq> 0)"

text \<open>
  The condition that ends the collection of a chirp body in \<^verbatim>\<open>first_pass\<close> (lines 275-276):
  a \<^verbatim>\<open>perch\<close> or \<^verbatim>\<open>chirp\<close> token whose indentation, 0 when the attribute is missing, is 0.
\<close>

definition top_level_decl :: "token \<Rightarrow> bool" where
  "top_level_decl t =
     ((tok_type t = PERCH \<or> tok_type t = CHIRP) \<and>
      (case indentation t of None \<Rightarrow> 0 | Some k \<Rightarrow> k) = 0)"

text \<open>The stomach branch of \<^verbatim>\<open>first_pass\<close> (lines 284-299); \<open>ts\<close> are the tokens behind the keyword.\<close>

definition record_stomach :: "token list \<Rightarrow> parser \<Rightarrow> parser" where
  "record_stomach ts p =
     (case ts of
        [] \<Rightarrow> p
      | u # us \<Rightarrow>
          (case (if tok_type u = NUMBER then
                   (case us of
                      [] \<Rightarrow> (None, Some (tok_value u))
                    | v # _ \<Rightarrow> if tok_type v = IDENTIFIER then (Some (tok_value v), Some (tok_value u))
                               else (None, Some (tok_value u)))
                 else if tok_type u = IDENTIFIER then (Some (tok_value u), None)
                 else (None, None)) of
             (None, sz) \<Rightarrow> p
           | (Some name, sz) \<Rightarrow>
               if truthy name then p\<lparr>stomachs := AList.update name sz (stomachs p)\<rparr> else p))"

text \<open>
  The loop of \<^verbatim>\<open>first_pass\<close> on the tokens from position \<^verbatim>\<open>i\<close> on. The perch branch adds 2
  to \<^verbatim>\<open>i\<close> and the end of the loop body adds 1 more, so three tokens are passed over.
\<close>

function first_pass_from :: "token list \<Rightarrow> parser \<Rightarrow> abort + parser" where
  "first_pass_from [] p = Inr p"
| "first_pass_from (t # ts) p =
     (if tok_type t = PERCH then
        (case ts of
           [] \<Rightarrow> first_pass_from (drop 2 ts) p
         | u # us \<Rightarrow>
             if tok_type u = IDENTIFIER then
               (case drop_colon (tok_value u) of
                  Inl e \<Rightarrow> Inl e
                | Inr name \<Rightarrow>
                    first_pass_from (drop 2 ts) (p\<lparr>parser_labels := insert name (parser_labels p)\<rparr>))
             else first_pass_from (drop 2 ts) p)
      else if tok_type t = CHIRP then
        (case ts of
           [] \<Rightarrow> first_pass_from ts p
         | u # us \<Rightarrow>
             if tok_type u = IDENTIFIER then
               (case drop_colon (tok_value u) of
                  Inl e \<Rightarrow> Inl e
                | Inr name \<Rightarrow>
                    first_pass_from (dropWhile (\<lambda>x. \<not> top_level_decl x) us)
                      (p\<lparr>chirps := AList.update name (takeWhile (\<lambda>x. \<not> top_level_decl x) us) (chirps p)\<rparr>))
             else first_pass_from ts p)
      else if tok_type t = STOMACH then first_pass_from ts (record_stomach ts p)
      else first_pass_from ts p)"
  by pat_completeness auto
termination
  by (relation "measure (\<lambda>(ts, p). length ts)")
     (auto simp: length_dropWhile_le less_Suc_eq_le le_SucI)

declare first_pass_from.simps [simp del]

definition first_pass :: "token list \<Rightarrow> parser \<Rightarrow> abort + parser" where
  "first_pass toks p = first_pass_from toks p"

text \<open>
  \<^verbatim>\<open>if not self.is_at_end() and f(self.peek()): v = self.advance().value\<close>: the operand, if
  the next token gives one, and the tokens left.
\<close>

definition take_operand :: "(token \<Rightarrow> pyval option) \<Rightarrow> token list \<Rightarrow> pyval option \<times> token list" where
  "take_operand f ts =
     (case ts of
        [] \<Rightarrow> (None, ts)
      | t # rest \<Rightarrow> (case f t of None \<Rightarrow> (None, ts) | Some v \<Rightarrow> (Some v, rest)))"

definition of_type :: "TokenType \<Rightarrow> token \<Rightarrow> pyval option" where
  "of_type ty t = (if tok_type t = ty then Some (tok_value t) else None)"

text \<open>The operand forms of \<^verbatim>\<open>gulp\<close>, \<^verbatim>\<open>devour into\<close>, \<^verbatim>\<open>flap\<close>, \<^verbatim>\<open>add\<close> and \<^verbatim>\<open>sub\<close>.\<close>

definition gulp_arg :: "token \<Rightarrow> pyval option" where
  "gulp_arg t = (if tok_type t = STRING \<or> tok_type t = NUMBER then Some (tok_value t) else None)"

definition devour_target :: "token \<Rightarrow> pyval option" where
  "devour_target t =
     (if tok_type t = IDENTIFIER then Some (tok_value t)
      else if tok_type t = NUMBER then Some (tok_value t)
      else None)"

definition flap_left_operand :: "token \<Rightarrow> pyval option" where
  "flap_left_operand t =
     (if tok_type t = BOWL then Some (PyStr ''bowl'')
      else if tok_type t = NUMBER then Some (tok_value t)
      else None)"

definition flap_right_operand :: "token \<Rightarrow> pyval option" where
  "flap_right_operand t =
     (if tok_type t = EMPTY then Some (PyStr ''empty'')
      else if tok_type t = NUMBER then Some (tok_value t)
      else if tok_type t = BOWL then Some (PyStr ''bowl'')
      else None)"

definition arith_operand :: "token \<Rightarrow> pyval option" where
  "arith_operand t =
     (if tok_type t = BOWL then Some (PyStr ''bowl'')
      else if tok_type t = NUMBER then Some (tok_value t)
      else if tok_type t = CELL_REF then Some (tok_value t)
      else None)"

text \<open>\<^verbatim>\<open>left_is_cell\<close> and \<^verbatim>\<open>right_is_cell\<close>: the operand was taken from a cell reference.\<close>

definition is_cell :: "token list \<Rightarrow> bool" where
  "is_cell ts = (case ts of [] \<Rightarrow> False | t # _ \<Rightarrow> tok_type t = CELL_REF)"

text \<open>
  \<^verbatim>\<open>parse_statement\<close> for the token \<open>t\<close> at the current position and the tokens \<open>ts\<close> behind
  it: the statement (\<open>None\<close> where the method returns \<^verbatim>\<open>None\<close>) and the tokens left.
\<close>

definition parse_statement :: "parser \<Rightarrow> token \<Rightarrow> token list \<Rightarrow> abort + stmt option \<times> token list" where
  "parse_statement p t ts =
     (if tok_type t = PECK then Inr (Some Peck, ts)
      else if tok_type t = SCRATCH then Inr (Some Scratch, ts)
      else if tok_type t = HOP then Inr (Some Hop, ts)
      else if tok_type t = HOPBACK then Inr (Some Hopback, ts)
      else if tok_type t = GULP then
        (case take_operand gulp_arg ts of
           (None, r) \<Rightarrow> Inr (Some (Gulp []), r)
         | (Some v, r) \<Rightarrow> Inr (Some (Gulp [v]), r))
      else if tok_type t = SQUAWK then Inr (Some Squawk, ts)
      else if tok_type t = STOMACH then
        (case take_operand (of_type NUMBER) ts of
           (sz, r1) \<Rightarrow>
             (case take_operand (of_type IDENTIFIER) r1 of
                (None, r2) \<Rightarrow>
                  Inl (Exit (''Error at line '' @ str_nat (line_number t) @ '': Expected stomach name''))
              | (Some name, r2) \<Rightarrow> Inr (Some (Stomach (Some name) sz), r2)))
      else if tok_type t = DEVOUR then
        (case (case ts of
                 [] \<Rightarrow> (None, ts)
               | u # us \<Rightarrow> if tok_type u = INTO then take_operand devour_target us else (None, ts)) of
           (target, r1) \<Rightarrow>
             (case take_operand (of_type STRING) r1 of
                (content, r2) \<Rightarrow> Inr (Some (Devour target content), r2)))
      else if tok_type t = REGURGITATE then
        (case take_operand (of_type IDENTIFIER) ts of
           (target, r) \<Rightarrow> Inr (Some (Regurgitate target), r))
      else if tok_type t = MIMIC then
        (case take_operand (of_type STRING) ts of
           (None, r) \<Rightarrow>
             Inl (Exit (''Error at line '' @ str_nat (line_number t) @ '': Expected string after mimic''))
         | (Some txt, r) \<Rightarrow> Inr (Some (Mimic (Some txt)), r))
      else if tok_type t = PREEN then Inr (Some Preen, ts)
      else if tok_type t = POOP then Inr (Some Poop, ts)
      else if tok_type t = PERCH then
        (case take_operand (of_type IDENTIFIER) ts of
           (None, r) \<Rightarrow> Inr (Some (Perch None), r)
         | (Some v, r) \<Rightarrow>
             (case drop_colon v of
                Inl e \<Rightarrow> Inl e
              | Inr name \<Rightarrow> Inr (Some (Perch (Some name)), r)))
      else if tok_type t = FLYTO then
        (case take_operand (of_type IDENTIFIER) ts of
           (target, r) \<Rightarrow> Inr (Some (Flyto target), r))
      else if tok_type t = FLAP then
        (case take_operand (of_type IDENTIFIER) ts of
           (target, r1) \<Rightarrow>
             (case take_operand flap_left_operand r1 of
                (left, r2) \<Rightarrow>
                  (case take_operand (of_type OPERATOR) r2 of
                     (cmp, r3) \<Rightarrow>
                       (case take_operand flap_right_operand r3 of
                          (right, r4) \<Rightarrow> Inr (Some (Flap target left cmp right), r4)))))
      else if tok_type t = ADD \<or> tok_type t = SUB then
        (case take_operand arith_operand ts of
           (left, r1) \<Rightarrow>
             (case take_operand arith_operand r1 of
                (right, r2) \<Rightarrow>
                  Inr (Some ((if tok_type t = ADD then Add else Sub) left right
                               (left \<noteq> None \<and> is_cell ts) (right \<noteq> None \<and> is_cell r1)),
                       r2)))
      else if tok_type t = MUL then Inr (Some Mul, ts)
      else if tok_type t = DIV then Inr (Some Div, ts)
      else if tok_type t = BOB then
        (case take_operand (of_type NUMBER) ts of
           (count, r) \<Rightarrow> Inr (Some (Bob count), r))
      else if tok_type t = PERISH then Inr (Some Perish, ts)
      else if tok_type t = IDENTIFIER then
        (if map_of (chirps p) (tok_value t) \<noteq> None then Inr (Some (Chirp_call (tok_value t)), ts)
         else Inr (None, ts))
      else Inr (None, ts))"

lemma take_operand_le:
  "length ts \<le> k \<Longrightarrow> length (snd (take_operand f ts)) \<le> k"
  by (auto simp: take_operand_def split: list.splits option.splits)

lemma take_operand_Nil: "take_operand f [] = (None, [])"
  by (simp add: take_operand_def)

lemma parse_statement_length:
  assumes "parse_statement p t ts = Inr (s, r)"
  shows "length r \<le> length ts"
proof (cases "tok_type t")
  case GULP
  then show ?thesis using assms
    by (auto simp: parse_statement_def case_prod_unfold split: option.splits intro!: take_operand_le)
next
  case STOMACH
  then show ?thesis using assms
    by (auto simp: parse_statement_def case_prod_unfold split: option.splits intro!: take_operand_le)
next
  case DEVOUR
  then show ?thesis using assms
    by (auto simp: parse_statement_def case_prod_unfold simp: take_operand_Nil split: list.splits if_splits intro!: take_operand_le)
next
  case REGURGITATE
  then show ?thesis using assms
    by (auto simp: parse_statement_def case_prod_unfold intro!: take_operand_le)
next
  case MIMIC
  then show ?thesis using assms
    by (auto simp: parse_statement_def case_prod_unfold split: option.splits intro!: take_operand_le)
next
  case PERCH
  then show ?thesis using assms
    by (auto simp: parse_statement_def case_prod_unfold split: option.splits sum.splits intro!: take_operand_le)
next
  case FLYTO
  then show ?thesis using assms
    by (auto simp: parse_statement_def case_prod_unfold intro!: take_operand_le)
next
  case FLAP
  then show ?thesis using assms
    by (auto simp: parse_statement_def case_prod_unfold intro!: take_operand_le)
next
  case ADD
  then show ?thesis using assms
    by (auto simp: parse_statement_def case_prod_unfold intro!: take_operand_le)
next
  case SUB
  then show ?thesis using assms
    by (auto simp: parse_statement_def case_prod_unfold intro!: take_operand_le)
next
  case BOB
  then show ?thesis using assms
    by (auto simp: parse_statement_def case_prod_unfold intro!: take_operand_le)
qed (use assms in \<open>auto simp: parse_statement_def split: if_splits\<close>)

text \<open>
  The loop of \<^verbatim>\<open>parse\<close>: \<^verbatim>\<open>while not self.is_at_end()\<close>, with \<open>blocks\<close> the list
  \<^verbatim>\<open>code_blocks\<close>. Every dictionary \<^verbatim>\<open>parse_statement\<close> returns is non-empty, hence true.
\<close>

function parse_from :: "parser \<Rightarrow> token list \<Rightarrow> stmt list \<Rightarrow> abort + stmt list" where
  "parse_from p [] blocks = Inr blocks"
| "parse_from p (t # ts) blocks =
     (case parse_statement p t ts of
        Inl e \<Rightarrow> Inl e
      | Inr (None, r) \<Rightarrow> parse_from p r blocks
      | Inr (Some s, r) \<Rightarrow> parse_from p r (blocks @ [s]))"
  by pat_completeness auto
termination
  by (relation "measure (\<lambda>(p, ts, blocks). length ts)")
     (auto dest: parse_statement_length simp: less_Suc_eq_le)

declare parse_from.simps [simp del]

text \<open>\<^verbatim>\<open>ParrotParser(tokens).parse()\<close>: the statements and the parser object with its tables.\<close>

definition parser_parse :: "token list \<Rightarrow> abort + stmt list \<times> parser" where
  "parser_parse toks =
     (case first_pass toks ParrotParser of
        Inl e \<Rightarrow> Inl e
      | Inr p \<Rightarrow>
          (case parse_from p toks [] of
             Inl e \<Rightarrow> Inl e
           | Inr blocks \<Rightarrow> Inr (blocks, p)))"

text \<open>The first two steps of \<^verbatim>\<open>compile_parrot\<close>: tokenize the source text, then parse the tokens.\<close>

definition compile_parrot_front :: "string \<Rightarrow> abort + stmt list \<times> parser" where
  "compile_parrot_front source_code =
     (case tokenize source_code of
        Inl e \<Rightarrow> Inl e
      | Inr toks \<Rightarrow> parser_parse toks)"

section \<open>Predicates used in the proofs\<close>









section \<open>Macro expansion\<close>

lemma expand_acc: "expand ms acc ns = acc @ expand ms [] ns"
proof (induction ns arbitrary: acc)
  case Nil
  show ?case by simp
next
  case (Cons n ns)
  show ?case
  proof (cases "map_of ms (instr n)")
    case None
    then show ?thesis
      using Cons.IH [of "acc @ [n]"] Cons.IH [of "[n]"] by simp
  next
    case (Some body)
    then show ?thesis
      using Cons.IH [of "acc @ body"] Cons.IH [of body] by simp
  qed
qed

lemma expand_append: "expand ms [] (xs @ ys) = expand ms [] xs @ expand ms [] ys"
proof (induction xs)
  case Nil
  show ?case by simp
next
  case (Cons n xs)
  show ?case
  proof (cases "map_of ms (instr n)")
    case None
    then show ?thesis
      using Cons.IH expand_acc [of ms "[n]"] by simp
  next
    case (Some body)
    then show ?thesis
      using Cons.IH expand_acc [of ms body] by simp
  qed
qed

lemma expand_no_calls:
  "\<forall>n \<in> set ns. map_of ms (instr n) = None \<Longrightarrow> expand ms [] ns = ns"
proof (induction ns)
  case Nil
  show ?case by simp
next
  case (Cons n ns)
  then show ?case
    using expand_acc [of ms "[n]" ns] by simp
qed

lemma expand_call: "map_of ms (instr n) = Some body \<Longrightarrow> expand ms [] [n] = body"
  by simp

text \<open>
  C3 (as amended). Where the top-level sequence is \<open>pre @ [call] @ post\<close> and \<open>call\<close> names a
  macro with body \<open>B\<close>, the flat IR is the expansion of \<open>pre\<close>, then \<open>B\<close> in order, then the
  expansion of \<open>post\<close>. When \<open>call\<close> is the only macro call of the top-level sequence (no other
  instruction of it names a macro), the flat IR is the top-level sequence with \<open>call\<close>
  replaced by \<open>B\<close>, every other instruction unchanged and in its place, and its length is the
  top-level length minus one plus the length of \<open>B\<close>: minus one plus two for a body of two
  instructions.
\<close>

theorem C3_expansion_substitution:
  assumes top: "ast c = pre @ [call] @ post"
    and body: "map_of (macros c) (instr call) = Some B"
  shows "ir (generate_ir c) = expand (macros c) [] pre @ B @ expand (macros c) [] post
    \<and> ((\<forall>n \<in> set (pre @ post). map_of (macros c) (instr n) = None) \<longrightarrow>
         ir (generate_ir c) = pre @ B @ post
         \<and> length (ir (generate_ir c)) = length (ast c) - 1 + length B
         \<and> (length B = 2 \<longrightarrow> length (ir (generate_ir c)) = length (ast c) - 1 + 2))"
proof -
  have site: "expand (macros c) [] (call # post) = B @ expand (macros c) [] post"
    using body expand_acc [of "macros c" B post] by simp
  have "expand (macros c) [] (pre @ call # post)
      = expand (macros c) [] pre @ expand (macros c) [] (call # post)"
    by (rule expand_append)
  then have splice: "ir (generate_ir c) = expand (macros c) [] pre @ B @ expand (macros c) [] post"
    using top site by (simp add: generate_ir_def)
  have single: "ir (generate_ir c) = pre @ B @ post"
    if "\<forall>n \<in> set (pre @ post). map_of (macros c) (instr n) = None"
  proof -
    have "expand (macros c) [] pre = pre" and "expand (macros c) [] post = post"
      using that by (auto intro: expand_no_calls)
    then show ?thesis using splice by simp
  qed
  show ?thesis
  proof (intro conjI impI)
    show "ir (generate_ir c) = expand (macros c) [] pre @ B @ expand (macros c) [] post"
      by (rule splice)
  next
    assume "\<forall>n \<in> set (pre @ post). map_of (macros c) (instr n) = None"
    then show "ir (generate_ir c) = pre @ B @ post" by (rule single)
  next
    assume "\<forall>n \<in> set (pre @ post). map_of (macros c) (instr n) = None"
    then have "ir (generate_ir c) = pre @ B @ post" by (rule single)
    then show "length (ir (generate_ir c)) = length (ast c) - 1 + length B"
      using top by simp
  next
    assume "\<forall>n \<in> set (pre @ post). map_of (macros c) (instr n) = None" and "length B = 2"
    then have "ir (generate_ir c) = pre @ B @ post" by (auto intro: single)
    then show "length (ir (generate_ir c)) = length (ast c) - 1 + 2"
      using top \<open>length B = 2\<close> by simp
  qed
qed

text \<open>
  The law at a top-level sequence \<^verbatim>\<open>hop\<close>, \<^verbatim>\<open>twice\<close>, \<^verbatim>\<open>squawk\<close> with the macro \<^verbatim>\<open>twice\<close>
  of body \<^verbatim>\<open>peck\<close>, \<^verbatim>\<open>peck\<close>.
\<close>

theorem C3_expansion_substitution_witness:
  "ast (ParrotCompiler\<lparr>ast := [\<lparr>instr = ''hop'', args = []\<rparr>, \<lparr>instr = ''twice'', args = []\<rparr>,
                                \<lparr>instr = ''squawk'', args = []\<rparr>],
                        macros := [(''twice'', [\<lparr>instr = ''peck'', args = []\<rparr>, \<lparr>instr = ''peck'', args = []\<rparr>])]\<rparr>)
     = [\<lparr>instr = ''hop'', args = []\<rparr>] @ [\<lparr>instr = ''twice'', args = []\<rparr>] @ [\<lparr>instr = ''squawk'', args = []\<rparr>]
   \<and> ir (generate_ir (ParrotCompiler\<lparr>ast := [\<lparr>instr = ''hop'', args = []\<rparr>, \<lparr>instr = ''twice'', args = []\<rparr>,
                                \<lparr>instr = ''squawk'', args = []\<rparr>],
                        macros := [(''twice'', [\<lparr>instr = ''peck'', args = []\<rparr>, \<lparr>instr = ''peck'', args = []\<rparr>])]\<rparr>))
     = [\<lparr>instr = ''hop'', args = []\<rparr>, \<lparr>instr = ''peck'', args = []\<rparr>, \<lparr>instr = ''peck'', args = []\<rparr>,
        \<lparr>instr = ''squawk'', args = []\<rparr>]
   \<and> length (ir (generate_ir (ParrotCompiler\<lparr>ast := [\<lparr>instr = ''hop'', args = []\<rparr>, \<lparr>instr = ''twice'', args = []\<rparr>,
                                \<lparr>instr = ''squawk'', args = []\<rparr>],
                        macros := [(''twice'', [\<lparr>instr = ''peck'', args = []\<rparr>, \<lparr>instr = ''peck'', args = []\<rparr>])]\<rparr>)))
     = 3 - 1 + 2"
  using C3_expansion_substitution
    [of "ParrotCompiler\<lparr>ast := [\<lparr>instr = ''hop'', args = []\<rparr>, \<lparr>instr = ''twice'', args = []\<rparr>,
                                \<lparr>instr = ''squawk'', args = []\<rparr>],
                        macros := [(''twice'', [\<lparr>instr = ''peck'', args = []\<rparr>, \<lparr>instr = ''peck'', args = []\<rparr>])]\<rparr>"
        "[\<lparr>instr = ''hop'', args = []\<rparr>]" "\<lparr>instr = ''twice'', args = []\<rparr>"
        "[\<lparr>instr = ''squawk'', args = []\<rparr>]"
        "[\<lparr>instr = ''peck'', args = []\<rparr>, \<lparr>instr = ''peck'', args = []\<rparr>]"]
  by (simp add: ParrotCompiler_def)

text \<open>
  C3 as stated fails when another macro is called as well. In the program below \<^verbatim>\<open>twice\<close> is
  defined with the body \<^verbatim>\<open>peck\<close>, \<^verbatim>\<open>peck\<close> and invoked exactly once, but the top-level sequence
  is \<^verbatim>\<open>twice\<close>, \<^verbatim>\<open>thrice\<close> and both calls are expanded: the flat IR is not the top-level
  sequence with the call of \<^verbatim>\<open>twice\<close> alone replaced, and its length is 5, not 2 - 1 + 2.
\<close>

theorem C3_expansion_counterexample:
  "front_end ParrotCompiler
       (''chirp twice:'' @ [CHR 0x0A] @ ''    peck'' @ [CHR 0x0A] @ ''    peck'' @ [CHR 0x0A]
        @ ''chirp thrice:'' @ [CHR 0x0A] @ ''    hop'' @ [CHR 0x0A] @ ''    hop'' @ [CHR 0x0A]
        @ ''    hop'' @ [CHR 0x0A] @ ''twice'' @ [CHR 0x0A] @ ''thrice'')
     = Inr \<lparr>source = ''chirp twice:'' @ [CHR 0x0A] @ ''    peck'' @ [CHR 0x0A] @ ''    peck'' @ [CHR 0x0A]
                @ ''chirp thrice:'' @ [CHR 0x0A] @ ''    hop'' @ [CHR 0x0A] @ ''    hop'' @ [CHR 0x0A]
                @ ''    hop'' @ [CHR 0x0A] @ ''twice'' @ [CHR 0x0A] @ ''thrice'',
             tokens = [''chirp twice:'', ''    peck'', ''    peck'', ''chirp thrice:'', ''    hop'',
                       ''    hop'', ''    hop'', ''twice'', ''thrice''],
             ast = [\<lparr>instr = ''twice'', args = []\<rparr>, \<lparr>instr = ''thrice'', args = []\<rparr>],
             labels = [],
             macros = [(''twice'', [\<lparr>instr = ''peck'', args = []\<rparr>, \<lparr>instr = ''peck'', args = []\<rparr>]),
                       (''thrice'', [\<lparr>instr = ''hop'', args = []\<rparr>, \<lparr>instr = ''hop'', args = []\<rparr>,
                                     \<lparr>instr = ''hop'', args = []\<rparr>])],
             label_count = 0, asm_lines = [],
             ir = [\<lparr>instr = ''peck'', args = []\<rparr>, \<lparr>instr = ''peck'', args = []\<rparr>,
                   \<lparr>instr = ''hop'', args = []\<rparr>, \<lparr>instr = ''hop'', args = []\<rparr>,
                   \<lparr>instr = ''hop'', args = []\<rparr>]\<rparr>
   \<and> [\<lparr>instr = ''peck'', args = []\<rparr>, \<lparr>instr = ''peck'', args = []\<rparr>,
       \<lparr>instr = ''hop'', args = []\<rparr>, \<lparr>instr = ''hop'', args = []\<rparr>, \<lparr>instr = ''hop'', args = []\<rparr>]
     \<noteq> [\<lparr>instr = ''peck'', args = []\<rparr>, \<lparr>instr = ''peck'', args = []\<rparr>, \<lparr>instr = ''thrice'', args = []\<rparr>]
   \<and> length [\<lparr>instr = ''peck'', args = []\<rparr>, \<lparr>instr = ''peck'', args = []\<rparr>,
       \<lparr>instr = ''hop'', args = []\<rparr>, \<lparr>instr = ''hop'', args = []\<rparr>, \<lparr>instr = ''hop'', args = []\<rparr>]
     \<noteq> length [\<lparr>instr = ''twice'', args = []\<rparr>, \<lparr>instr = ''thrice'', args = []\<rparr>] - 1 + 2"
  by code_simp

section \<open>The parse loop\<close>

lemma parse_line_chirp:
  assumes "split_ws (strip line) = ''chirp'' # a # as"
  shows "parse_line ps line =
    Inr (ps\<lparr>indent_stack := indent_stack ps @ [indent_width line],
             current_macro := Some (rstrip_chars '':'' a),
             self := (self ps)\<lparr>macros := AList.update (rstrip_chars '':'' a) [] (macros (self ps))\<rparr>\<rparr>)"
  using assms by (simp add: parse_line_def Let_def)

lemma parse_line_other:
  assumes "split_ws (strip line) = i # as" and "i \<noteq> ''chirp''"
  shows "parse_line ps line =
    (case record_label (self ps) i as of
       Inl e \<Rightarrow> Inl e
     | Inr c1 \<Rightarrow>
         (case adjust_indent (indent_width line) (indent_stack ps) (current_macro ps) of
            Inl e \<Rightarrow> Inl e
          | Inr (stk, cur) \<Rightarrow>
              (case emit_node (indent_width line) stk cur c1 \<lparr>instr = i, args = as\<rparr> of
                 Inl e \<Rightarrow> Inl e
               | Inr c2 \<Rightarrow> Inr \<lparr>indent_stack = stk, current_macro = cur, self = c2\<rparr>)))"
  using assms by (simp add: parse_line_def Let_def)

lemma parse_line_cases [consumes 1, case_names chirp other]:
  assumes "parse_line ps line = Inr ps'"
  obtains a as where "split_ws (strip line) = ''chirp'' # a # as"
      and "ps' = ps\<lparr>indent_stack := indent_stack ps @ [indent_width line],
             current_macro := Some (rstrip_chars '':'' a),
             self := (self ps)\<lparr>macros := AList.update (rstrip_chars '':'' a) [] (macros (self ps))\<rparr>\<rparr>"
  | i as c1 stk cur c2 where "split_ws (strip line) = i # as" and "i \<noteq> ''chirp''"
      and "record_label (self ps) i as = Inr c1"
      and "adjust_indent (indent_width line) (indent_stack ps) (current_macro ps) = Inr (stk, cur)"
      and "emit_node (indent_width line) stk cur c1 \<lparr>instr = i, args = as\<rparr> = Inr c2"
      and "ps' = \<lparr>indent_stack = stk, current_macro = cur, self = c2\<rparr>"
proof (cases "split_ws (strip line)")
  case Nil
  then show ?thesis using assms by (simp add: parse_line_def)
next
  case (Cons i as)
  show ?thesis
  proof (cases "i = ''chirp''")
    case True
    then show ?thesis
    proof (cases as)
      case Nil
      then show ?thesis using assms Cons True by (simp add: parse_line_def)
    next
      case (Cons a as')
      then show ?thesis
        using assms \<open>split_ws (strip line) = i # as\<close> True that(1) [of a as']
        by (simp add: parse_line_chirp)
    qed
  next
    case False
    then show ?thesis
      using assms Cons that(2) [of i as]
      by (auto simp: parse_line_other split: sum.splits prod.splits)
  qed
qed


lemma record_label_frame:
  "record_label c i as = Inr c1 \<Longrightarrow> ast c1 = ast c \<and> macros c1 = macros c"
  by (auto simp: record_label_def split: if_splits list.splits)















text \<open>
  In the line-oriented \<^verbatim>\<open>parse\<close> the node of a line goes to exactly one container: either
  it is appended to the top-level sequence and the macro table stays as it is, or it is
  appended to the body of one macro and the top-level sequence stays as it is.
\<close>

lemma parse_line_one_container:
  assumes "split_ws (strip line) = i # as" and "i \<noteq> ''chirp''" and "parse_line ps line = Inr ps'"
  shows "(ast (self ps') = ast (self ps) @ [\<lparr>instr = i, args = as\<rparr>] \<and> macros (self ps') = macros (self ps))
    \<or> (ast (self ps') = ast (self ps)
       \<and> (\<exists>m body. map_of (macros (self ps)) m = Some body
             \<and> macros (self ps') = AList.update m (body @ [\<lparr>instr = i, args = as\<rparr>]) (macros (self ps))))"
  using assms(3)
proof (cases rule: parse_line_cases)
  case (chirp b bs)
  then show ?thesis using assms(1,2) by simp
next
  case (other j bs c1 stk cur c2)
  then have j: "j = i" "bs = as" using assms(1) by simp_all
  have f: "ast c1 = ast (self ps)" "macros c1 = macros (self ps)"
    using record_label_frame [OF other(3)] by simp_all
  have "(ast c2 = ast c1 @ [\<lparr>instr = j, args = bs\<rparr>] \<and> macros c2 = macros c1)
    \<or> (ast c2 = ast c1 \<and> (\<exists>m body. map_of (macros c1) m = Some body
          \<and> macros c2 = AList.update m (body @ [\<lparr>instr = j, args = bs\<rparr>]) (macros c1)))"
  proof (cases cur)
    case None
    then show ?thesis using other(5) by (auto simp: emit_node_def)
  next
    case (Some m)
    show ?thesis
    proof (cases "m \<noteq> [] \<and> last stk \<le> indent_width line")
      case False
      then show ?thesis using other(5) Some
        by (auto simp: emit_node_def split: if_splits)
    next
      case True
      then obtain body where "map_of (macros c1) m = Some body"
          and "c2 = c1\<lparr>macros := AList.update m (body @ [\<lparr>instr = j, args = bs\<rparr>]) (macros c1)\<rparr>"
        using other(5) Some
        by (auto simp: emit_node_def split: if_splits option.splits)
      then show ?thesis by auto
    qed
  qed
  then show ?thesis using f j other(6) by auto
qed

section \<open>The label table\<close>


lemma emit_node_top:
  assumes "emit_node indent stk None c n = Inr c2"
  shows "labels c2 = labels c \<and> ast c2 = ast c @ [n] \<and> macros c2 = macros c"
  using assms by (auto simp: emit_node_def)
















section \<open>The semantic check\<close>

lemma check_nodes_rejects:
  "n \<in> set ns \<Longrightarrow> instr n = ''flyto'' \<Longrightarrow> args n = [] \<Longrightarrow> \<exists>m. check_nodes ns = Inl (SyntaxError m)"
  by (induction ns) auto

lemma semantic_check_top_level:
  "n \<in> set (ast c) \<Longrightarrow> instr n = ''flyto'' \<Longrightarrow> args n = [] \<Longrightarrow>
   \<exists>m. semantic_check c = Inl (SyntaxError m)"
  using check_nodes_rejects [of n "ast c"] by (auto simp: semantic_check_def)

text \<open>
  C2. A \<^verbatim>\<open>flyto\<close> without arguments in the top-level sequence makes \<^verbatim>\<open>semantic_check\<close>
  raise SyntaxError (the two lemmas above, and the last conjunct below). Inside a macro body
  it does not: for \<^verbatim>\<open>chirp m:\<close>, an indented \<^verbatim>\<open>flyto\<close>, and the call \<^verbatim>\<open>m\<close>, the check
  reads only the top-level sequence, the front end succeeds with the argument-less \<^verbatim>\<open>flyto\<close>
  in the flat IR, and both backends then fail with IndexError at \<^verbatim>\<open>args[0]\<close>.
\<close>

theorem C2_flyto_in_macro_body:
  "front_end ParrotCompiler (''chirp m:'' @ [CHR 0x0A] @ ''    flyto'' @ [CHR 0x0A] @ ''m'')
     = Inr \<lparr>source = ''chirp m:'' @ [CHR 0x0A] @ ''    flyto'' @ [CHR 0x0A] @ ''m'',
             tokens = [''chirp m:'', ''    flyto'', ''m''],
             ast = [\<lparr>instr = ''m'', args = []\<rparr>], labels = [],
             macros = [(''m'', [\<lparr>instr = ''flyto'', args = []\<rparr>])],
             label_count = 0, asm_lines = [],
             ir = [\<lparr>instr = ''flyto'', args = []\<rparr>]\<rparr>
   \<and> pipeline_linux ParrotCompiler (''chirp m:'' @ [CHR 0x0A] @ ''    flyto'' @ [CHR 0x0A] @ ''m'')
     = Inl IndexError
   \<and> pipeline_windows ParrotCompiler (''chirp m:'' @ [CHR 0x0A] @ ''    flyto'' @ [CHR 0x0A] @ ''m'')
     = Inl IndexError
   \<and> front_end ParrotCompiler ''flyto'' = Inl (SyntaxError \<lparr>instr = ''flyto'', args = []\<rparr>)"
  by code_simp

section \<open>The backends\<close>































text \<open>
  C8. The output of the Linux pipeline on the six-line program \<^verbatim>\<open>perch start:\<close>,
  \<^verbatim>\<open>peck\<close>, \<^verbatim>\<open>peck\<close>, \<^verbatim>\<open>flap start bowl < 5\<close>, \<^verbatim>\<open>mimic "done"\<close>, \<^verbatim>\<open>perish\<close>. Behind the
  header come the label line, two \<^verbatim>\<open>inc byte [rsi]\<close>, the compare and \<^verbatim>\<open>jl .start\<close>, the
  write of \<^verbatim>\<open>str_0\<close> (whose constant is inserted as the second line of the data section), and
  the exit sequence last, with no other jump. The label line itself is \<^verbatim>\<open>.start::\<close> with
  two colons, not \<^verbatim>\<open>.start:\<close>: the node keeps the argument \<^verbatim>\<open>start:\<close> as written and the
  backend appends a colon of its own, so the target \<^verbatim>\<open>.start\<close> of the jump is not the label
  the output defines.
\<close>

theorem C8_linux_six_line_program:
  "main_linux (join [CHR 0x0A]
       [''perch start:'', ''peck'', ''peck'', ''flap start bowl < 5'',
        ''mimic '' @ [CHR 0x22] @ ''done'' @ [CHR 0x22], ''perish''])
   = Inr (join [CHR 0x0A]
       [''section .data'',
        ''str_0 db '' @ [CHR 0x22] @ ''done'' @ [CHR 0x22] @ '', 10, 0'',
        ''newline db 10, 0'',
        ''input_prompt db 'Feed the birb: ', 0'',
        ''input_buffer resb 128'', ''section .bss'', ''tape resb 30000'',
        ''section .text'', ''global _start'', ''_start:'',
        ''    mov rsi, tape'', ''.start::'', ''    inc byte [rsi]'',
        ''    inc byte [rsi]'', ''    movzx rax, byte [rsi]'',
        ''    cmp rax, 5'', ''    jl .start'', ''    mov rax, 1'',
        ''    mov rdi, 1'', ''    mov rsi, str_0'', ''    mov rdx, 5'',
        ''    syscall'', ''    mov rax, 60'', ''    xor rdi, rdi'',
        ''    syscall''])"
  by code_simp

section \<open>The token lexer\<close>











section \<open>The token parser\<close>

lemma flap_never_rejected:
  "tok_type t = FLAP \<Longrightarrow> \<exists>target left cmp right r. parse_statement p t ts = Inr (Some (Flap target left cmp right), r)"
  by (simp add: parse_statement_def split: prod.splits)

text \<open>
  C7. The token parser reports a missing operand for \<^verbatim>\<open>mimic\<close> (no string) and
  \<^verbatim>\<open>stomach\<close> (no name) only: it prints the line and an opcode-specific message and exits.
  A \<^verbatim>\<open>flap\<close> is never rejected (lemma above): the one-word source \<^verbatim>\<open>flap\<close> parses to a
  flap statement whose target, operands and operator are all absent, and \<^verbatim>\<open>flap start bowl\<close>
  to one without operator and right operand. In the line-oriented compilers the source
  \<^verbatim>\<open>flap start\<close> passes \<^verbatim>\<open>parse\<close> and \<^verbatim>\<open>semantic_check\<close> and fails in \<^verbatim>\<open>generate_asm\<close>
  with the ValueError of the unpacking, which nothing reports.
\<close>

theorem C7_flap_without_operands:
  "tokenize ''flap''
     = Inr [\<lparr>tok_type = FLAP, tok_value = PyStr ''flap'', line_number = 1, indentation = Some 0\<rparr>]
   \<and> map_sum id fst (compile_parrot_front ''flap'') = Inr [Flap None None None None]
   \<and> map_sum id fst (compile_parrot_front ''flap start bowl'')
     = Inr [Flap (Some (PyStr ''start'')) (Some (PyStr ''bowl'')) None None]
   \<and> map_sum id fst (compile_parrot_front ''mimic'')
     = Inl (Exit ''Error at line 1: Expected string after mimic'')
   \<and> map_sum id fst (compile_parrot_front ''stomach 64'')
     = Inl (Exit ''Error at line 1: Expected stomach name'')
   \<and> main_linux ''flap start'' = Inl ValueError
   \<and> main_windows ''flap start'' = Inl ValueError"
  by code_simp

text \<open>
  C6. In the token parser \<^verbatim>\<open>first_pass\<close> stores the tokens behind \<^verbatim>\<open>chirp twice\<close> as the
  body of the macro and leaves them in the token list, and the loop of \<^verbatim>\<open>parse\<close> then
  parses the same tokens into the top-level sequence: the two \<^verbatim>\<open>peck\<close> of the body (lines 2
  and 3) are in the body of \<^verbatim>\<open>twice\<close> and in the top-level sequence, which also starts with a
  call of \<^verbatim>\<open>twice\<close> made of the name in the definition line.
\<close>

theorem C6_chirp_body_parsed_at_top_level:
  "map_sum id (\<lambda>(blocks, p). (blocks, chirps p))
     (compile_parrot_front (''chirp twice:'' @ [CHR 0x0A] @ ''    peck'' @ [CHR 0x0A] @ ''    peck''
                            @ [CHR 0x0A] @ ''twice''))
   = Inr ([Chirp_call (PyStr ''twice''), Peck, Peck, Chirp_call (PyStr ''twice'')],
          [(PyStr ''twice'',
            [\<lparr>tok_type = IDENTIFIER, tok_value = PyStr '':'', line_number = 1, indentation = None\<rparr>,
             \<lparr>tok_type = PECK, tok_value = PyStr ''peck'', line_number = 2, indentation = Some 1\<rparr>,
             \<lparr>tok_type = PECK, tok_value = PyStr ''peck'', line_number = 3, indentation = Some 1\<rparr>,
             \<lparr>tok_type = IDENTIFIER, tok_value = PyStr ''twice'', line_number = 4,
                indentation = Some 0\<rparr>])])"
  by code_simp

end
